theory Spec2Isabelle
  imports Complex_Main "HOL-Library.Word"
begin

section \<open>Tensors (contract of tensor.h)\<close>

text \<open>
  Modelled from the spec: tensor.h and tensor\_dim.h are not among the sources, so
  \<open>TensorDim\<close> is the dimension tuple of section 3 of the specification, and the
  error taxonomy is the one of section 7. Scalars (C++ \<open>float\<close> and \<open>double\<close>)
  are read as real numbers: rounding is outside this model.
\<close>

record TensorDim =
  batch :: nat
  channel :: nat
  height :: nat
  width :: nat

datatype error = InvalidParameter | NotInitialized | IOFailure

text \<open>
  Modelled from the spec: a Tensor is either in the empty (unallocated) sentinel
  state or fully allocated with a backing buffer for its dimension.
\<close>

datatype Tensor = Unallocated | Allocated TensorDim "real list"

text \<open>Modelled from the spec: the number of elements a dimension tuple stands for.\<close>

definition getDataLen :: "TensorDim \<Rightarrow> nat" where
  "getDataLen d = batch d * channel d * height d * width d"

text \<open>Modelled from the spec: the is-empty query of the Tensor contract.\<close>

fun empty_tensor :: "Tensor \<Rightarrow> bool" where
  "empty_tensor Unallocated = True"
| "empty_tensor (Allocated d xs) = False"

text \<open>
  Modelled from the spec: the dimension of a Tensor; the empty sentinel has no extent.
\<close>

fun getDim :: "Tensor \<Rightarrow> TensorDim" where
  "getDim Unallocated = \<lparr>batch = 0, channel = 0, height = 0, width = 0\<rparr>"
| "getDim (Allocated d xs) = d"

text \<open>
  Modelled from the spec: \<open>Tensor::clone()\<close> has value semantics, the copy holds
  the same dimension and the same element values in a buffer of its own.
\<close>

definition clone_tensor :: "Tensor \<Rightarrow> Tensor" where
  "clone_tensor t = t"

text \<open>
  Modelled from the spec: a Tensor constructed for a dimension in its zero-equivalent
  state.
\<close>

definition zero_tensor :: "TensorDim \<Rightarrow> Tensor" where
  "zero_tensor d = Allocated d (replicate (getDataLen d) 0)"

text \<open>
  Modelled from the spec: the in-place scaled add \<open>this += alpha * m\<close> of the Tensor
  contract, element by element. The result is the new state of the receiver. An
  operand that is not allocated is the error NotInitialized (operation invoked before
  allocation), operands of different shape are the error InvalidParameter (bad shape).
  A scaled add that fails leaves the receiver as it was; what becomes of the reported
  failure is the caller's code.
\<close>

fun add_i :: "Tensor \<Rightarrow> Tensor \<Rightarrow> real \<Rightarrow> error + Tensor" where
  "add_i Unallocated m alpha = Inl NotInitialized"
| "add_i (Allocated d xs) Unallocated alpha = Inl NotInitialized"
| "add_i (Allocated d xs) (Allocated d' ys) alpha =
     (if d = d' \<and> length xs = length ys
      then Inr (Allocated d (map2 (\<lambda>x y. x + alpha * y) xs ys))
      else Inl InvalidParameter)"

text \<open>
  Modelled from the spec: the L2 norm query of the Tensor contract, the square root of
  the sum of the squares of the elements; reading a Tensor that is not allocated is the
  error NotInitialized.
\<close>

fun l2norm :: "Tensor \<Rightarrow> error + real" where
  "l2norm Unallocated = Inl NotInitialized"
| "l2norm (Allocated d xs) = Inr (sqrt (sum_list (map (\<lambda>x. x * x) xs)))"

section \<open>The store of shared Tensor objects\<close>

text \<open>
  \<open>var\<close> and \<open>grad\<close> are \<open>std::shared_ptr<Tensor>\<close> (weight.h, lines 154 to 157):
  a Weight holds two addresses, and the Tensor objects live in a store. A cell that was
  never allocated holds the empty Tensor; \<open>next_addr\<close> is the first address that
  \<open>std::make_shared\<close> has not handed out yet.
\<close>

type_synonym addr = nat

record store =
  cells :: "addr \<Rightarrow> Tensor"
  next_addr :: addr

definition make_shared :: "Tensor \<Rightarrow> store \<Rightarrow> addr \<times> store" where
  "make_shared t st =
     (next_addr st,
      st\<lparr>cells := (cells st)(next_addr st := t), next_addr := Suc (next_addr st)\<rparr>)"

definition set_cell :: "addr \<Rightarrow> Tensor \<Rightarrow> store \<Rightarrow> store" where
  "set_cell a t st = st\<lparr>cells := (cells st)(a := t)\<rparr>"

section \<open>Var\_Grad (contract of var\_grad.h)\<close>

text \<open>
  Modelled from the spec: var\_grad.h is not among the sources. The fields are those of
  the Variable-Gradient Pair of section 3 (dimension, variable, gradient, name, the
  allocate-now flag, the need-gradient flag and the initializer policy that
  \<open>reset\<close> replaces); weight.h shows that \<open>var\<close> and \<open>grad\<close> are shared pointers.
\<close>

datatype Initializer =
  ZEROS | LECUN_NORMAL | LECUN_UNIFORM | XAVIER_NORMAL | XAVIER_UNIFORM
| HE_NORMAL | HE_UNIFORM

record Var_Grad =
  dim :: TensorDim
  var :: addr
  grad :: addr
  initializer :: Initializer
  need_gradient :: bool
  alloc_now :: bool
  name :: string

text \<open>
  Modelled from the spec: \<open>Var_Grad::hasGradient()\<close> tells whether the pair has
  gradient needs.
\<close>

definition hasGradient :: "'a Var_Grad_scheme \<Rightarrow> bool" where
  "hasGradient vg = need_gradient vg"

text \<open>
  Modelled from the spec: \<open>Var_Grad::reset(dim, init, ng)\<close> of section 4.1. If the new
  dimension equals the current one and the variable is already allocated, the variable
  is left untouched; otherwise the variable is deallocated. The gradient is always
  cleared. Dimension, initializer and need-gradient are replaced in place.
\<close>

definition Var_Grad_reset ::
  "TensorDim \<Rightarrow> Initializer \<Rightarrow> bool \<Rightarrow> 'a Var_Grad_scheme \<Rightarrow> store
     \<Rightarrow> 'a Var_Grad_scheme \<times> store" where
  "Var_Grad_reset tdim init ng vg st =
     (let st1 = (if tdim = dim vg \<and> \<not> empty_tensor (cells st (var vg)) then st
                 else set_cell (var vg) Unallocated st);
          st2 = set_cell (grad vg) Unallocated st1
      in (vg\<lparr>dim := tdim, initializer := init, need_gradient := ng\<rparr>, st2))"

text \<open>
  Modelled from the spec: \<open>Var_Grad::allocateGradient()\<close> of section 4.1 without a
  preallocated Tensor. It materializes the gradient for the pair's dimension; it is a
  no-op if the gradient is already allocated or if need-gradient is false.
\<close>

definition Var_Grad_allocateGradient :: "'a Var_Grad_scheme \<Rightarrow> store \<Rightarrow> store" where
  "Var_Grad_allocateGradient vg st =
     (if need_gradient vg \<and> empty_tensor (cells st (grad vg))
      then set_cell (grad vg) (zero_tensor (dim vg)) st
      else st)"

text \<open>
  Modelled from the spec: \<open>Var_Grad::deallocateGradient()\<close> of section 4.1 releases
  the gradient Tensor back to the empty state.
\<close>

definition Var_Grad_deallocateGradient :: "'a Var_Grad_scheme \<Rightarrow> store \<Rightarrow> store" where
  "Var_Grad_deallocateGradient vg st = set_cell (grad vg) Unallocated st"

section \<open>Weight (weight.h)\<close>

text \<open>
  The regularizer kinds that weight.h names (lines 44, 61 and 222); the enumeration
  itself is declared in tensor\_wrap\_specs.h.
\<close>

datatype WeightRegularizer = L2NORM | NONE | UNKNOWN

text \<open>
  \<open>class Weight : public Var_Grad\<close> with the private members of lines 265 to 269.
  The optimizer variables are a \<open>std::vector<Tensor>\<close>, held by value.
\<close>

record Weight = Var_Grad +
  regularizer :: WeightRegularizer
  regularizer_constant :: real
  opt_vars :: "Tensor list"
  opt_vars_dim :: "TensorDim list"



text \<open>Lines 221 to 223.\<close>

definition isWeightRegularizerL2Norm :: "Weight \<Rightarrow> bool" where
  "isWeightRegularizerL2Norm w = (regularizer w = L2NORM)"

text \<open>
  Lines 228 to 233. The method is not \<open>const\<close>: the model returns the loss together
  with the Weight and the store as the body leaves them.
\<close>

definition getRegularizationLoss :: "Weight \<Rightarrow> store \<Rightarrow> error + (real \<times> Weight \<times> store)" where
  "getRegularizationLoss w st =
     (if hasGradient w \<and> isWeightRegularizerL2Norm w
      then (case l2norm (cells st (var w)) of
              Inl e \<Rightarrow> Inl e
            | Inr n \<Rightarrow> Inr (regularizer_constant w * 0.5 * n, w, st))
      else Inr (0, w, st))"

text \<open>
  Lines 238 to 241. The only test is the regularizer kind; \<open>grad->add_i\<close> is
  applied to the Tensor objects that \<open>grad\<close> and \<open>var\<close> point to. The call is an
  expression statement of a \<open>void\<close> method: what \<open>add_i\<close> reports is dropped, and
  after a scaled add that failed the gradient is as it was.
\<close>

definition calcRegularizationGradient :: "Weight \<Rightarrow> store \<Rightarrow> Weight \<times> store" where
  "calcRegularizationGradient w st =
     (if isWeightRegularizerL2Norm w
      then (case add_i (cells st (grad w)) (cells st (var w)) (regularizer_constant w) of
              Inl e \<Rightarrow> (w, st)
            | Inr g \<Rightarrow> (w, set_cell (grad w) g st))
      else (w, st))"

text \<open>
  Line 246, of the same shape: an expression statement of a \<open>void\<close> method, what
  \<open>add_i\<close> reports is dropped.
\<close>

definition applyGradient :: "real \<Rightarrow> Weight \<Rightarrow> store \<Rightarrow> Weight \<times> store" where
  "applyGradient lr w st =
     (case add_i (cells st (var w)) (cells st (grad w)) (- lr) of
        Inl e \<Rightarrow> (w, st)
      | Inr v \<Rightarrow> (w, set_cell (var w) v st))"

text \<open>
  Lines 152 to 160. \<open>Weight w(*this)\<close> is the defaulted copy constructor of line 122:
  every member is copied, the two shared pointers as addresses and the two vectors by
  value. A non-empty variable or gradient then gets a Tensor object of its own.
\<close>

definition clone :: "Weight \<Rightarrow> store \<Rightarrow> Weight \<times> store" where
  "clone this st =
     (let w = this;
          (w1, st1) =
            (if \<not> empty_tensor (cells st (var this))
             then (let (a, st') = make_shared (clone_tensor (cells st (var this))) st
                   in (w\<lparr>var := a\<rparr>, st'))
             else (w, st));
          (w2, st2) =
            (if \<not> empty_tensor (cells st1 (grad this))
             then (let (a, st') = make_shared (clone_tensor (cells st1 (grad this))) st1
                   in (w1\<lparr>grad := a\<rparr>, st'))
             else (w1, st1))
      in (w2, st2))"

text \<open>Lines 172 to 178.\<close>

definition reset ::
  "TensorDim \<Rightarrow> Initializer \<Rightarrow> WeightRegularizer \<Rightarrow> real \<Rightarrow> bool \<Rightarrow> Weight \<Rightarrow> store
     \<Rightarrow> Weight \<times> store" where
  "reset tdim init reg reg_const ng w st =
     Var_Grad_reset tdim init ng
       (w\<lparr>regularizer := reg, regularizer_constant := reg_const\<rparr>) st"

text \<open>Lines 183 to 186.\<close>

definition clearOptimizerVariables :: "Weight \<Rightarrow> Weight" where
  "clearOptimizerVariables w = w\<lparr>opt_vars := [], opt_vars_dim := []\<rparr>"

text \<open>Lines 192 to 195.\<close>

definition addOptimizerVariable :: "TensorDim \<Rightarrow> Weight \<Rightarrow> Weight" where
  "addOptimizerVariable d w = w\<lparr>opt_vars_dim := opt_vars_dim w @ [d]\<rparr>"

text \<open>
  The outcome of a call that hands out a reference: it returns, it fails with an error,
  or its behaviour is undefined. \<open>std::vector::operator[]\<close> checks no bound: an index
  past the end is undefined behaviour, no failure is signalled.
\<close>

datatype 'a outcome = Returns 'a | Fails error | UndefinedBehaviour

definition vector_subscript :: "'a list \<Rightarrow> nat \<Rightarrow> 'a outcome" where
  "vector_subscript xs i = (if i < length xs then Returns (xs ! i) else UndefinedBehaviour)"

text \<open>Line 202; \<open>idx\<close> is an \<open>unsigned int\<close>.\<close>

definition getOptimizerVariableRef :: "32 word \<Rightarrow> Weight \<Rightarrow> Tensor outcome" where
  "getOptimizerVariableRef idx w = vector_subscript (opt_vars w) (unat idx)"

text \<open>
  Modelled from the spec: \<open>Weight::allocateOptimizerVariables()\<close> is declared at line
  274 and defined in weight.cpp, which is not among the sources. It materializes the
  registered optimizer-state Tensors, one per registered shape, in registration order,
  each in the zero-equivalent state (section 4.2).
\<close>

definition allocateOptimizerVariables :: "Weight \<Rightarrow> Weight" where
  "allocateOptimizerVariables w = w\<lparr>opt_vars := map zero_tensor (opt_vars_dim w)\<rparr>"

text \<open>Lines 212 to 215.\<close>

definition allocateGradient :: "Weight \<Rightarrow> store \<Rightarrow> Weight \<times> store" where
  "allocateGradient w st = (allocateOptimizerVariables w, Var_Grad_allocateGradient w st)"

text \<open>Lines 251 to 254.\<close>

definition deallocateGradient :: "Weight \<Rightarrow> store \<Rightarrow> Weight \<times> store" where
  "deallocateGradient w st = (w\<lparr>opt_vars := []\<rparr>, Var_Grad_deallocateGradient w st)"

section \<open>Layer (layer.h)\<close>

datatype LayerType = LAYER_IN | LAYER_FC | LAYER_BN | LAYER_UNKNOWN

datatype ActiType = ACT_TANH | ACT_SIGMOID | ACT_RELU | ACT_SOFTMAX | ACT_UNKNOWN

datatype WeightIniType =
  WEIGHT_LECUN_NORMAL | WEIGHT_LECUN_UNIFORM | WEIGHT_XAVIER_NORMAL | WEIGHT_XAVIER_UNIFORM
| WEIGHT_HE_NORMAL | WEIGHT_HE_UNIFORM | WEIGHT_UNKNOWN

text \<open>The status codes named at lines 128 and 129.\<close>

datatype status = ML_ERROR_NONE | ML_ERROR_INVALID_PARAMETER

text \<open>
  The protected members of lines 198 to 245 that have a type in this model (the
  optimizer, the activation function pointers and the weight-decay parameter are of
  types declared elsewhere), and the Weights a concrete variant manages.
  \<open>layer_dim\<close> is the member \<open>dim\<close>, \<open>layer_type\<close> the member \<open>type\<close>.
\<close>

record Layer =
  input :: Tensor
  hidden :: Tensor
  last_layer :: bool
  layer_dim :: TensorDim
  init_zero :: bool
  layer_type :: LayerType
  activation_type :: ActiType
  bn_fallow :: bool
  weights :: "Weight list"

text \<open>
  Modelled from the spec: \<open>Layer::initialize\<close> is pure virtual at lines 131 and 132,
  and no concrete variant is among the sources. Following section 4.3, a variant fails
  with invalid-parameter on a non-positive batch, height or width; otherwise it
  establishes the dimension, sets \<open>last_layer\<close> and \<open>init_zero\<close> and allocates its
  Weights with the given initializer policy. What a variant allocates is the parameter
  \<open>variant\<close>. The arguments \<open>b\<close>, \<open>h\<close> and \<open>w\<close> are C++ \<open>int\<close>.
\<close>

definition initialize ::
  "(TensorDim \<Rightarrow> WeightIniType \<Rightarrow> bool \<Rightarrow> store \<Rightarrow> Weight list \<times> store)
     \<Rightarrow> 32 word \<Rightarrow> 32 word \<Rightarrow> 32 word \<Rightarrow> bool \<Rightarrow> bool \<Rightarrow> WeightIniType \<Rightarrow> Layer \<Rightarrow> store
     \<Rightarrow> status \<times> Layer \<times> store" where
  "initialize variant b h w is_last iz wini l st =
     (if sint b \<le> 0 \<or> sint h \<le> 0 \<or> sint w \<le> 0
      then (ML_ERROR_INVALID_PARAMETER, l, st)
      else (let d = \<lparr>batch = nat (sint b), channel = 1, height = nat (sint h),
                      width = nat (sint w)\<rparr>;
                (ws, st') = variant d wini iz st
            in (ML_ERROR_NONE,
                l\<lparr>last_layer := is_last, init_zero := iz, layer_dim := d, weights := ws\<rparr>,
                st')))"

section \<open>Concrete inputs\<close>

text \<open>
  The dimension 1 x 1 x 2 x 3, a Weight of that dimension whose variable is the Tensor
  object at address 0 and whose gradient is the one at address 1, and the store that
  holds these two objects.
\<close>

definition dim_2x3 :: TensorDim where
  "dim_2x3 = \<lparr>batch = 1, channel = 1, height = 2, width = 3\<rparr>"

definition example_weight :: Weight where
  "example_weight =
     \<lparr>dim = dim_2x3, var = 0, grad = 1, initializer = ZEROS, need_gradient = True,
      alloc_now = True, name = ''weight'', regularizer = NONE,
      regularizer_constant = 1, opt_vars = [], opt_vars_dim = []\<rparr>"

definition store_of :: "Tensor \<Rightarrow> Tensor \<Rightarrow> store" where
  "store_of v g = \<lparr>cells = (\<lambda>a. Unallocated)(0 := v, 1 := g), next_addr = 2\<rparr>"

text \<open>A fully connected Layer before its initialization: it manages no Weight yet.\<close>

definition example_layer :: Layer where
  "example_layer =
     \<lparr>input = Unallocated, hidden = Unallocated, last_layer = False,
      layer_dim = \<lparr>batch = 0, channel = 0, height = 0, width = 0\<rparr>, init_zero = False,
      layer_type = LAYER_FC, activation_type = ACT_UNKNOWN, bn_fallow = False,
      weights = []\<rparr>"

section \<open>Auxiliary facts\<close>

lemma map2_replicate_one:
  "map2 (\<lambda>x g. x + c * g) xs (replicate (length xs) (1::real)) = map (\<lambda>x. x + c) xs"
  by (induction xs) simp_all

lemma getDim_zero_tensor: "getDim (zero_tensor d) = d"
  by (simp add: zero_tensor_def)

lemma map_getDim_zero_tensor: "map (getDim \<circ> zero_tensor) ds = ds"
  by (induction ds) (simp_all add: getDim_zero_tensor)

lemma opt_vars_dim_fold_add:
  "opt_vars_dim (fold addOptimizerVariable ds w) = opt_vars_dim w @ ds"
  by (induction ds arbitrary: w) (simp_all add: addOptimizerVariable_def)

lemma sqrt_25: "sqrt 25 = 5"
proof -
  have "sqrt 25 = sqrt (5\<^sup>2)" by simp
  also have "\<dots> = \<bar>5\<bar>" by (rule real_sqrt_abs)
  finally show ?thesis by simp
qed

text \<open>
  \<open>clone\<close> with the two allocations written out: the copy of the variable goes to the
  first free address, the copy of the gradient to the next free one.
\<close>

lemma clone_unfold:
  "clone w st =
     (let v = cells st (var w);
          st1 = (if empty_tensor v then st
                 else st\<lparr>cells := (cells st)(next_addr st := v),
                         next_addr := Suc (next_addr st)\<rparr>);
          g = cells st1 (grad w)
      in (w\<lparr>var := (if empty_tensor v then var w else next_addr st),
            grad := (if empty_tensor g then grad w else next_addr st1)\<rparr>,
          if empty_tensor g then st1
          else st1\<lparr>cells := (cells st1)(next_addr st1 := g),
                   next_addr := Suc (next_addr st1)\<rparr>))"
  by (simp add: clone_def make_shared_def clone_tensor_def Let_def)

lemma add_i_allocated:
  assumes "length gs = length xs"
  shows "add_i (Allocated d xs) (Allocated d gs) alpha =
           Inr (Allocated d (map2 (\<lambda>x g. x + alpha * g) xs gs))"
  using assms by simp

lemma applyGradient_allocated:
  assumes "cells st (var w) = Allocated d xs"
    and "cells st (grad w) = Allocated d gs"
    and "length gs = length xs"
  shows "applyGradient lr w st =
           (w, set_cell (var w) (Allocated d (map2 (\<lambda>x g. x + (- lr) * g) xs gs)) st)"
  using assms by (simp add: applyGradient_def)

subsection \<open>Regularization and the need-gradient flag\<close>




text \<open>
  \<open>calcRegularizationGradient\<close> never reads the need-gradient flag: whatever the
  flag is set to, the same Tensor objects result. With the regularizer L2NORM, a Weight
  without gradient needs is left alone because its gradient is empty, not because of
  the flag.
\<close>

lemma calcRegularizationGradient_ignores_need_gradient:
  "calcRegularizationGradient (w\<lparr>need_gradient := ng\<rparr>) st =
     (case calcRegularizationGradient w st of
        (w', st') \<Rightarrow> (w'\<lparr>need_gradient := ng\<rparr>, st'))"
  by (simp add: calcRegularizationGradient_def isWeightRegularizerL2Norm_def
      split: sum.splits)

section \<open>Properties\<close>



text \<open>
  C2 as stated fails: the clone of a Weight that holds one materialized optimizer
  tensor holds that tensor too, its optimizer state is not empty.
\<close>

theorem clone_carries_optimizer_state:
  "opt_vars (fst (clone
       (example_weight\<lparr>opt_vars := [zero_tensor dim_2x3], opt_vars_dim := [dim_2x3]\<rparr>)
       (store_of (zero_tensor dim_2x3) (zero_tensor dim_2x3))))
     = [zero_tensor dim_2x3]
   \<and> opt_vars (fst (clone
       (example_weight\<lparr>opt_vars := [zero_tensor dim_2x3], opt_vars_dim := [dim_2x3]\<rparr>)
       (store_of (zero_tensor dim_2x3) (zero_tensor dim_2x3)))) \<noteq> []"
  by (simp add: clone_unfold Let_def)

text \<open>
  C2, amended: for every Weight whose variable and gradient are objects of the store,
  \<open>clone\<close> returns a Weight whose variable and gradient are value-equal to the
  original's. When the variable (the gradient) is not empty, the clone's is a Tensor
  object of its own: writing to the clone's leaves the original's as it was, and
  writing to the original's leaves the clone's as it was. The objects the store held
  before are not changed. Regularizer kind, regularizer constant and name equal the
  original's, and so do the optimizer-variable registry and the materialized optimizer
  tensors, which the copy constructor carries over.
\<close>

theorem clone_deep_copies:
  assumes "var w < next_addr st" and "grad w < next_addr st"
  shows "case clone w st of (w', st') \<Rightarrow>
           cells st' (var w') = cells st (var w)
         \<and> cells st' (grad w') = cells st (grad w)
         \<and> (\<not> empty_tensor (cells st (var w)) \<longrightarrow>
              var w' \<noteq> var w \<and> var w' \<noteq> grad w \<and> var w' \<noteq> grad w'
              \<and> (\<forall>t. cells (set_cell (var w') t st') (var w) = cells st (var w))
              \<and> (\<forall>t. cells (set_cell (var w) t st') (var w') = cells st (var w)))
         \<and> (\<not> empty_tensor (cells st (grad w)) \<longrightarrow>
              grad w' \<noteq> grad w \<and> grad w' \<noteq> var w \<and> grad w' \<noteq> var w'
              \<and> (\<forall>t. cells (set_cell (grad w') t st') (grad w) = cells st (grad w))
              \<and> (\<forall>t. cells (set_cell (grad w) t st') (grad w') = cells st (grad w)))
         \<and> (\<forall>a. a < next_addr st \<longrightarrow> cells st' a = cells st a)
         \<and> regularizer w' = regularizer w
         \<and> regularizer_constant w' = regularizer_constant w
         \<and> name w' = name w
         \<and> opt_vars w' = opt_vars w
         \<and> opt_vars_dim w' = opt_vars_dim w"
  using assms by (auto simp add: clone_unfold Let_def set_cell_def)

theorem clone_deep_copies_witness:
  "var example_weight
     < next_addr (store_of (Allocated dim_2x3 [1, 2, 3, 4, 5, 6]) (zero_tensor dim_2x3))
   \<and> grad example_weight
     < next_addr (store_of (Allocated dim_2x3 [1, 2, 3, 4, 5, 6]) (zero_tensor dim_2x3))
   \<and> (case clone example_weight
              (store_of (Allocated dim_2x3 [1, 2, 3, 4, 5, 6]) (zero_tensor dim_2x3)) of
         (w', st') \<Rightarrow>
           cells st' (var w') = Allocated dim_2x3 [1, 2, 3, 4, 5, 6]
         \<and> cells st' (grad w') = zero_tensor dim_2x3
         \<and> var w' \<noteq> var example_weight
         \<and> grad w' \<noteq> grad example_weight
         \<and> cells (set_cell (var w') Unallocated st') (var example_weight)
             = Allocated dim_2x3 [1, 2, 3, 4, 5, 6]
         \<and> name w' = ''weight''
         \<and> opt_vars w' = [])"
proof -
  let ?st = "store_of (Allocated dim_2x3 [1, 2, 3, 4, 5, 6]) (zero_tensor dim_2x3)"
  have v: "var example_weight < next_addr ?st"
    by (simp add: example_weight_def store_of_def)
  have g: "grad example_weight < next_addr ?st"
    by (simp add: example_weight_def store_of_def)
  have cv: "cells ?st (var example_weight) = Allocated dim_2x3 [1, 2, 3, 4, 5, 6]"
    by (simp add: example_weight_def store_of_def)
  have cg: "cells ?st (grad example_weight) = zero_tensor dim_2x3"
    by (simp add: example_weight_def store_of_def)
  have ne: "\<not> empty_tensor (zero_tensor dim_2x3)"
    by (simp add: zero_tensor_def)
  have n: "name example_weight = ''weight''" and o: "opt_vars example_weight = []"
    by (simp_all add: example_weight_def)
  show ?thesis
    using clone_deep_copies [OF v g] v g
    by (simp add: cv cg ne n o split: prod.splits)
qed

text \<open>
  C3: for every Weight, \<open>getRegularizationLoss\<close> returns 0 when the Weight has no
  gradient needs or its regularizer is not L2NORM, and otherwise returns
  \<open>regularizer_constant * 0.5 * l2norm(variable)\<close>, which for an allocated variable
  with elements \<open>xs\<close> is \<open>regularizer_constant * 0.5 * sqrt (sum of x * x)\<close> (a
  variable that is not allocated has no norm, the failure of \<open>l2norm\<close> is passed on).
  Whenever it returns, the Weight and the store are as they were before the call.
\<close>

theorem getRegularizationLoss_cases:
  "getRegularizationLoss w st =
     (if need_gradient w \<and> regularizer w = L2NORM
      then (case l2norm (cells st (var w)) of
              Inl e \<Rightarrow> Inl e
            | Inr n \<Rightarrow> Inr (regularizer_constant w * 0.5 * n, w, st))
      else Inr (0, w, st))
   \<and> getRegularizationLoss w st =
     (if need_gradient w \<and> regularizer w = L2NORM
      then (case cells st (var w) of
              Unallocated \<Rightarrow> Inl NotInitialized
            | Allocated d xs \<Rightarrow>
                Inr (regularizer_constant w * 0.5 * sqrt (sum_list (map (\<lambda>x. x * x) xs)),
                     w, st))
      else Inr (0, w, st))"
  by (simp add: getRegularizationLoss_def hasGradient_def isWeightRegularizerL2Norm_def
      split: Tensor.split)

theorem getRegularizationLoss_cases_witness:
  "getRegularizationLoss (example_weight\<lparr>regularizer := L2NORM, regularizer_constant := 2\<rparr>)
     (store_of (Allocated dim_2x3 [3, 4, 0, 0, 0, 0]) (zero_tensor dim_2x3))
   = Inr (5, example_weight\<lparr>regularizer := L2NORM, regularizer_constant := 2\<rparr>,
          store_of (Allocated dim_2x3 [3, 4, 0, 0, 0, 0]) (zero_tensor dim_2x3))
   \<and> getRegularizationLoss (example_weight\<lparr>regularizer_constant := 2\<rparr>)
     (store_of (Allocated dim_2x3 [3, 4, 0, 0, 0, 0]) (zero_tensor dim_2x3))
   = Inr (0, example_weight\<lparr>regularizer_constant := 2\<rparr>,
          store_of (Allocated dim_2x3 [3, 4, 0, 0, 0, 0]) (zero_tensor dim_2x3))"
  using getRegularizationLoss_cases
      [where w = "example_weight\<lparr>regularizer := L2NORM, regularizer_constant := 2\<rparr>"
         and st = "store_of (Allocated dim_2x3 [3, 4, 0, 0, 0, 0]) (zero_tensor dim_2x3)"]
    getRegularizationLoss_cases
      [where w = "example_weight\<lparr>regularizer_constant := 2\<rparr>"
         and st = "store_of (Allocated dim_2x3 [3, 4, 0, 0, 0, 0]) (zero_tensor dim_2x3)"]
  by (simp add: example_weight_def store_of_def sqrt_25)

text \<open>
  C4: for every Weight whose variable and gradient are two allocated Tensor objects of
  the same dimension, and every learning rate \<open>lr\<close>, the scaled add of
  \<open>applyGradient lr\<close> succeeds and replaces the variable, in place, by
  \<open>variable + (- lr) * gradient\<close> element by element. The gradient stays as it was;
  the Weight itself (regularizer fields, name, optimizer state) and every other object
  of the store are unchanged. In particular, with a gradient of ones and \<open>lr = 0.1\<close>
  every element of the variable decreases by exactly 0.1.
\<close>

theorem applyGradient_updates_variable:
  assumes "cells st (var w) = Allocated d xs"
    and "cells st (grad w) = Allocated d gs"
    and "length gs = length xs"
    and "var w \<noteq> grad w"
  shows "add_i (cells st (var w)) (cells st (grad w)) (- lr) =
           Inr (Allocated d (map2 (\<lambda>x g. x + (- lr) * g) xs gs))
         \<and> applyGradient lr w st =
           (w, set_cell (var w) (Allocated d (map2 (\<lambda>x g. x + (- lr) * g) xs gs)) st)
         \<and> cells (set_cell (var w) (Allocated d (map2 (\<lambda>x g. x + (- lr) * g) xs gs)) st)
              (grad w)
             = Allocated d gs
         \<and> (gs = replicate (length xs) 1 \<longrightarrow>
              applyGradient 0.1 w st =
                (w, set_cell (var w) (Allocated d (map (\<lambda>x. x - 0.1) xs)) st))"
proof (intro conjI impI)
  show "add_i (cells st (var w)) (cells st (grad w)) (- lr) =
           Inr (Allocated d (map2 (\<lambda>x g. x + (- lr) * g) xs gs))"
    using assms(1-3) by (simp add: add_i_allocated)
  show "applyGradient lr w st =
           (w, set_cell (var w) (Allocated d (map2 (\<lambda>x g. x + (- lr) * g) xs gs)) st)"
    using assms(1-3) by (rule applyGradient_allocated)
  show "cells (set_cell (var w) (Allocated d (map2 (\<lambda>x g. x + (- lr) * g) xs gs)) st)
          (grad w)
        = Allocated d gs"
    using assms(2,4) by (simp add: set_cell_def)
next
  assume ones: "gs = replicate (length xs) 1"
  have "map2 (\<lambda>x g. x + (- 0.1) * g) xs gs = map (\<lambda>x. x - 0.1) xs"
    using map2_replicate_one [of "- 0.1" xs] ones by simp
  then show "applyGradient 0.1 w st =
      (w, set_cell (var w) (Allocated d (map (\<lambda>x. x - 0.1) xs)) st)"
    using applyGradient_allocated [OF assms(1-3), of "0.1"] by simp
qed

theorem applyGradient_updates_variable_witness:
  "applyGradient 0.1 example_weight
     (store_of (Allocated dim_2x3 [0, 0, 0, 0, 0, 0]) (Allocated dim_2x3 [1, 1, 1, 1, 1, 1]))
   = (example_weight,
       store_of (Allocated dim_2x3 [- 0.1, - 0.1, - 0.1, - 0.1, - 0.1, - 0.1])
         (Allocated dim_2x3 [1, 1, 1, 1, 1, 1]))"
proof -
  let ?st = "store_of (Allocated dim_2x3 [0, 0, 0, 0, 0, 0])
               (Allocated dim_2x3 [1, 1, 1, 1, 1, 1])"
  have v: "cells ?st (var example_weight) = Allocated dim_2x3 [0, 0, 0, 0, 0, 0]"
    by (simp add: store_of_def example_weight_def)
  have g: "cells ?st (grad example_weight) = Allocated dim_2x3 [1, 1, 1, 1, 1, 1]"
    by (simp add: store_of_def example_weight_def)
  have l: "length [1, 1, 1, 1, 1, 1 :: real] = length [0, 0, 0, 0, 0, 0 :: real]"
    by simp
  have n: "var example_weight \<noteq> grad example_weight"
    by (simp add: example_weight_def)
  show ?thesis
    using applyGradient_updates_variable [OF v g l n, where lr = "0.1"]
    by (simp add: set_cell_def store_of_def example_weight_def fun_upd_twist)
qed

text \<open>
  C5 as stated fails: the materialized optimizer tensors do not always have the length
  of the registry. A Weight that holds one registered shape and the one tensor
  materialized for it (the state after an allocation) holds, after a further
  \<open>addOptimizerVariable\<close>, two registered shapes and still one tensor.
\<close>

theorem registry_outgrows_optimizer_variables:
  "length (opt_vars (addOptimizerVariable dim_2x3
       (example_weight\<lparr>opt_vars := [zero_tensor dim_2x3], opt_vars_dim := [dim_2x3]\<rparr>))) = 1
   \<and> length (opt_vars_dim (addOptimizerVariable dim_2x3
       (example_weight\<lparr>opt_vars := [zero_tensor dim_2x3], opt_vars_dim := [dim_2x3]\<rparr>))) = 2
   \<and> fst (allocateGradient (addOptimizerVariable dim_2x3 example_weight)
            (store_of (zero_tensor dim_2x3) Unallocated))
      = example_weight\<lparr>opt_vars := [zero_tensor dim_2x3], opt_vars_dim := [dim_2x3]\<rparr>"
  by (simp add: addOptimizerVariable_def allocateGradient_def allocateOptimizerVariables_def
      example_weight_def)

text \<open>
  C5, amended: for every Weight, \<open>addOptimizerVariable d\<close> appends \<open>d\<close> to the shape
  registry, which grows by one, and materializes no tensor. After the shapes \<open>s1\<close>,
  \<open>s2\<close>, \<open>s3\<close> are registered on a Weight with no registered shape and no
  materialized tensor, \<open>allocateGradient\<close> materializes exactly three optimizer-state
  tensors, zero-equivalent and of the shapes \<open>s1\<close>, \<open>s2\<close>, \<open>s3\<close> in that order.
  For a Weight that holds no materialized tensor and any sequence \<open>ds\<close> of further
  registrations, right after \<open>allocateGradient\<close> the materialized tensors have the
  length of the registry and, index by index, its shapes. The equality is that of the
  state right after the allocation, not an invariant: a later registration lengthens
  the registry alone. \<open>clearOptimizerVariables\<close> empties both the registry and the
  materialized tensors. (The statements about \<open>allocateGradient\<close> are made for a
  Weight without materialized tensors, where replacing the tensors and adding to them
  come to the same.)
\<close>

theorem optimizer_variables_follow_registry:
  "addOptimizerVariable d w = w\<lparr>opt_vars_dim := opt_vars_dim w @ [d]\<rparr>
   \<and> opt_vars (addOptimizerVariable d w) = opt_vars w
   \<and> length (opt_vars_dim (addOptimizerVariable d w)) = Suc (length (opt_vars_dim w))
   \<and> opt_vars (fst (allocateGradient
        (addOptimizerVariable s3 (addOptimizerVariable s2 (addOptimizerVariable s1
           (clearOptimizerVariables w)))) st))
       = [zero_tensor s1, zero_tensor s2, zero_tensor s3]
   \<and> map getDim (opt_vars (fst (allocateGradient
        (addOptimizerVariable s3 (addOptimizerVariable s2 (addOptimizerVariable s1
           (clearOptimizerVariables w)))) st)))
       = [s1, s2, s3]
   \<and> opt_vars_dim (fst (allocateGradient
        (addOptimizerVariable s3 (addOptimizerVariable s2 (addOptimizerVariable s1
           (clearOptimizerVariables w)))) st))
       = [s1, s2, s3]
   \<and> (opt_vars w = [] \<longrightarrow>
        opt_vars (fst (allocateGradient (fold addOptimizerVariable ds w) st))
          = map zero_tensor (opt_vars_dim w @ ds)
        \<and> opt_vars_dim (fst (allocateGradient (fold addOptimizerVariable ds w) st))
          = opt_vars_dim w @ ds
        \<and> map getDim (opt_vars (fst (allocateGradient (fold addOptimizerVariable ds w) st)))
          = opt_vars_dim (fst (allocateGradient (fold addOptimizerVariable ds w) st)))
   \<and> opt_vars (clearOptimizerVariables w) = []
   \<and> opt_vars_dim (clearOptimizerVariables w) = []"
proof -
  have registered:
    "opt_vars (fst (allocateGradient (fold addOptimizerVariable ds w) st))
       = map zero_tensor (opt_vars_dim w @ ds)"
    by (simp add: allocateGradient_def allocateOptimizerVariables_def opt_vars_dim_fold_add)
  have registry:
    "opt_vars_dim (fst (allocateGradient (fold addOptimizerVariable ds w) st))
       = opt_vars_dim w @ ds"
    by (simp add: allocateGradient_def allocateOptimizerVariables_def opt_vars_dim_fold_add)
  have shapes:
    "map getDim (opt_vars (fst (allocateGradient (fold addOptimizerVariable ds w) st)))
       = opt_vars_dim w @ ds"
    by (simp only: registered map_map map_getDim_zero_tensor)
  show ?thesis
    using registered registry shapes
    by (simp add: addOptimizerVariable_def allocateGradient_def allocateOptimizerVariables_def
        clearOptimizerVariables_def map_getDim_zero_tensor getDim_zero_tensor)
qed

theorem optimizer_variables_follow_registry_witness:
  "opt_vars (fst (allocateGradient
      (addOptimizerVariable \<lparr>batch = 1, channel = 1, height = 1, width = 3\<rparr>
        (addOptimizerVariable \<lparr>batch = 1, channel = 1, height = 2, width = 1\<rparr>
          (addOptimizerVariable \<lparr>batch = 1, channel = 1, height = 1, width = 1\<rparr>
            (clearOptimizerVariables example_weight))))
      (store_of (zero_tensor dim_2x3) Unallocated)))
   = [Allocated \<lparr>batch = 1, channel = 1, height = 1, width = 1\<rparr> [0],
      Allocated \<lparr>batch = 1, channel = 1, height = 2, width = 1\<rparr> [0, 0],
      Allocated \<lparr>batch = 1, channel = 1, height = 1, width = 3\<rparr> [0, 0, 0]]
   \<and> opt_vars example_weight = []
   \<and> map getDim (opt_vars (fst (allocateGradient
        (fold addOptimizerVariable [dim_2x3, dim_2x3] example_weight)
        (store_of (zero_tensor dim_2x3) Unallocated))))
      = [dim_2x3, dim_2x3]"
proof -
  let ?st = "store_of (zero_tensor dim_2x3) Unallocated"
  let ?s1 = "\<lparr>batch = 1, channel = 1, height = 1, width = 1\<rparr>"
  let ?s2 = "\<lparr>batch = 1, channel = 1, height = 2, width = 1\<rparr>"
  let ?s3 = "\<lparr>batch = 1, channel = 1, height = 1, width = 3\<rparr>"
  have e: "opt_vars example_weight = []" and r: "opt_vars_dim example_weight = []"
    by (simp_all add: example_weight_def)
  note inst = optimizer_variables_follow_registry
      [where d = dim_2x3 and ?s1.0 = ?s1 and ?s2.0 = ?s2 and ?s3.0 = ?s3
         and ds = "[dim_2x3, dim_2x3]" and w = example_weight and st = ?st]
  have three: "opt_vars (fst (allocateGradient
      (addOptimizerVariable ?s3 (addOptimizerVariable ?s2 (addOptimizerVariable ?s1
        (clearOptimizerVariables example_weight)))) ?st))
      = [zero_tensor ?s1, zero_tensor ?s2, zero_tensor ?s3]"
    using inst by blast
  have shapes: "map getDim (opt_vars (fst (allocateGradient
        (fold addOptimizerVariable [dim_2x3, dim_2x3] example_weight) ?st)))
      = opt_vars_dim example_weight @ [dim_2x3, dim_2x3]"
    using inst e by metis
  show ?thesis
    using three shapes e
    by (simp add: r zero_tensor_def getDataLen_def numeral_2_eq_2 numeral_3_eq_3)
qed

text \<open>
  C6 as stated fails: \<open>reset\<close> on a Weight that holds one registered shape and one
  materialized optimizer tensor leaves both in place, the optimizer state is not
  cleared.
\<close>

theorem reset_keeps_optimizer_state:
  "opt_vars_dim (fst (reset dim_2x3 ZEROS L2NORM 2 True
      (example_weight\<lparr>opt_vars := [zero_tensor dim_2x3], opt_vars_dim := [dim_2x3]\<rparr>)
      (store_of (zero_tensor dim_2x3) (zero_tensor dim_2x3)))) = [dim_2x3]
   \<and> opt_vars (fst (reset dim_2x3 ZEROS L2NORM 2 True
      (example_weight\<lparr>opt_vars := [zero_tensor dim_2x3], opt_vars_dim := [dim_2x3]\<rparr>)
      (store_of (zero_tensor dim_2x3) (zero_tensor dim_2x3)))) = [zero_tensor dim_2x3]"
  by (simp add: reset_def Var_Grad_reset_def Let_def)

text \<open>
  C6, amended: for every Weight, \<open>reset\<close> sets the regularizer kind and the
  regularizer constant to the given values for every combination of arguments, and
  replaces dimension, initializer and need-gradient. It applies the shape-preservation
  rule of the pair to the variable (variable and gradient being two different Tensor
  objects): an allocated variable whose dimension equals the new one keeps its values,
  any other variable ends empty. The optimizer-variable registry and the materialized
  optimizer tensors are left as they were.
\<close>

theorem reset_sets_regularizer:
  "case reset tdim init reg reg_const ng w st of (w', st') \<Rightarrow>
     regularizer w' = reg
   \<and> regularizer_constant w' = reg_const
   \<and> dim w' = tdim \<and> initializer w' = init \<and> need_gradient w' = ng
   \<and> var w' = var w \<and> grad w' = grad w \<and> name w' = name w
   \<and> (var w \<noteq> grad w \<longrightarrow>
        cells st' (var w') =
          (if tdim = dim w \<and> \<not> empty_tensor (cells st (var w))
           then cells st (var w) else Unallocated))
   \<and> opt_vars w' = opt_vars w
   \<and> opt_vars_dim w' = opt_vars_dim w"
  by (simp add: reset_def Var_Grad_reset_def Let_def set_cell_def)

theorem reset_sets_regularizer_witness:
  "var example_weight \<noteq> grad example_weight
   \<and> regularizer (fst (reset dim_2x3 XAVIER_UNIFORM L2NORM 3 False example_weight
        (store_of (Allocated dim_2x3 [1, 2, 3, 4, 5, 6]) (zero_tensor dim_2x3)))) = L2NORM
   \<and> regularizer_constant (fst (reset dim_2x3 XAVIER_UNIFORM L2NORM 3 False example_weight
        (store_of (Allocated dim_2x3 [1, 2, 3, 4, 5, 6]) (zero_tensor dim_2x3)))) = 3
   \<and> cells (snd (reset dim_2x3 XAVIER_UNIFORM L2NORM 3 False example_weight
        (store_of (Allocated dim_2x3 [1, 2, 3, 4, 5, 6]) (zero_tensor dim_2x3)))) 0
       = Allocated dim_2x3 [1, 2, 3, 4, 5, 6]
   \<and> cells (snd (reset \<lparr>batch = 1, channel = 1, height = 3, width = 2\<rparr> XAVIER_UNIFORM
        L2NORM 3 False example_weight
        (store_of (Allocated dim_2x3 [1, 2, 3, 4, 5, 6]) (zero_tensor dim_2x3)))) 0
       = Unallocated"
proof -
  let ?st = "store_of (Allocated dim_2x3 [1, 2, 3, 4, 5, 6]) (zero_tensor dim_2x3)"
  have n: "var example_weight \<noteq> grad example_weight"
    by (simp add: example_weight_def)
  have v: "var example_weight = 0"
    by (simp add: example_weight_def)
  have c: "cells ?st 0 = Allocated dim_2x3 [1, 2, 3, 4, 5, 6]"
    by (simp add: store_of_def)
  have d: "dim example_weight = dim_2x3"
    by (simp add: example_weight_def)
  have ne: "\<lparr>batch = 1, channel = 1, height = 3, width = 2\<rparr> \<noteq> dim_2x3"
    by (simp add: dim_2x3_def)
  have same: "regularizer (fst (reset dim_2x3 XAVIER_UNIFORM L2NORM 3 False example_weight ?st))
                = L2NORM
      \<and> regularizer_constant (fst (reset dim_2x3 XAVIER_UNIFORM L2NORM 3 False
            example_weight ?st)) = 3
      \<and> cells (snd (reset dim_2x3 XAVIER_UNIFORM L2NORM 3 False example_weight ?st)) 0
          = Allocated dim_2x3 [1, 2, 3, 4, 5, 6]"
    using n reset_sets_regularizer [where tdim = dim_2x3 and init = XAVIER_UNIFORM
        and reg = L2NORM and reg_const = 3 and ng = False and w = example_weight
        and st = ?st]
    by (auto simp add: case_prod_beta v c d)
  have other: "cells (snd (reset \<lparr>batch = 1, channel = 1, height = 3, width = 2\<rparr>
        XAVIER_UNIFORM L2NORM 3 False example_weight ?st)) 0 = Unallocated"
    using n reset_sets_regularizer
        [where tdim = "\<lparr>batch = 1, channel = 1, height = 3, width = 2\<rparr>"
        and init = XAVIER_UNIFORM and reg = L2NORM and reg_const = 3 and ng = False
        and w = example_weight and st = ?st] ne
    by (auto simp add: case_prod_beta v d simp del: One_nat_def)
  show ?thesis
    using n same other by blast
qed

text \<open>
  C7: for every Weight, \<open>deallocateGradient\<close> clears all materialized optimizer-state
  tensors and changes nothing else in the Weight: the registered optimizer-variable
  shapes stay, and an \<open>allocateGradient\<close> that follows materializes tensors of the
  same shapes again.
\<close>

theorem deallocateGradient_keeps_registry:
  "fst (deallocateGradient w st) = w\<lparr>opt_vars := []\<rparr>
   \<and> opt_vars (fst (deallocateGradient w st)) = []
   \<and> opt_vars_dim (fst (deallocateGradient w st)) = opt_vars_dim w
   \<and> opt_vars (fst (allocateGradient (fst (deallocateGradient w st))
                       (snd (deallocateGradient w st))))
       = map zero_tensor (opt_vars_dim w)
   \<and> map getDim (opt_vars (fst (allocateGradient (fst (deallocateGradient w st))
                       (snd (deallocateGradient w st)))))
       = opt_vars_dim w"
  by (simp add: deallocateGradient_def allocateGradient_def allocateOptimizerVariables_def
      map_getDim_zero_tensor)

theorem deallocateGradient_keeps_registry_witness:
  "opt_vars (fst (deallocateGradient
      (example_weight\<lparr>opt_vars := [zero_tensor dim_2x3], opt_vars_dim := [dim_2x3]\<rparr>)
      (store_of (zero_tensor dim_2x3) (zero_tensor dim_2x3)))) = []
   \<and> opt_vars_dim (fst (deallocateGradient
      (example_weight\<lparr>opt_vars := [zero_tensor dim_2x3], opt_vars_dim := [dim_2x3]\<rparr>)
      (store_of (zero_tensor dim_2x3) (zero_tensor dim_2x3)))) = [dim_2x3]"
  using deallocateGradient_keeps_registry
      [where w = "example_weight\<lparr>opt_vars := [zero_tensor dim_2x3],
                                  opt_vars_dim := [dim_2x3]\<rparr>"
         and st = "store_of (zero_tensor dim_2x3) (zero_tensor dim_2x3)"]
  by simp

text \<open>
  C8 as stated fails: an index that is not smaller than the number of materialized
  optimizer tensors is not refused. The subscript is evaluated without a bounds check,
  the behaviour is undefined and no failure is signalled.
\<close>

theorem getOptimizerVariableRef_unchecked:
  "getOptimizerVariableRef 0 example_weight = UndefinedBehaviour
   \<and> getOptimizerVariableRef 5 (example_weight\<lparr>opt_vars := [zero_tensor dim_2x3]\<rparr>)
       = UndefinedBehaviour"
  by (simp add: getOptimizerVariableRef_def vector_subscript_def example_weight_def)

text \<open>
  C8, amended: for every Weight and every index, \<open>getOptimizerVariableRef\<close> returns
  the optimizer-state tensor at that index when the index is smaller than the number
  of materialized optimizer tensors; for any other index it performs no bounds check,
  the behaviour is undefined. It never fails with an error.
\<close>

theorem getOptimizerVariableRef_subscript:
  "getOptimizerVariableRef idx w =
     (if unat idx < length (opt_vars w) then Returns (opt_vars w ! unat idx)
      else UndefinedBehaviour)
   \<and> (\<forall>e. getOptimizerVariableRef idx w \<noteq> Fails e)"
  by (simp add: getOptimizerVariableRef_def vector_subscript_def)

theorem getOptimizerVariableRef_subscript_witness:
  "getOptimizerVariableRef 1
     (example_weight\<lparr>opt_vars := [zero_tensor dim_2x3, Allocated dim_2x3 [1, 2, 3, 4, 5, 6]]\<rparr>)
   = Returns (Allocated dim_2x3 [1, 2, 3, 4, 5, 6])
   \<and> getOptimizerVariableRef 2
     (example_weight\<lparr>opt_vars := [zero_tensor dim_2x3, Allocated dim_2x3 [1, 2, 3, 4, 5, 6]]\<rparr>)
   = UndefinedBehaviour"
  using getOptimizerVariableRef_subscript
      [where idx = 1 and w = "example_weight\<lparr>opt_vars :=
               [zero_tensor dim_2x3, Allocated dim_2x3 [1, 2, 3, 4, 5, 6]]\<rparr>"]
    getOptimizerVariableRef_subscript
      [where idx = 2 and w = "example_weight\<lparr>opt_vars :=
               [zero_tensor dim_2x3, Allocated dim_2x3 [1, 2, 3, 4, 5, 6]]\<rparr>"]
  by simp

text \<open>
  C9: for every concrete Layer variant, \<open>initialize\<close> returns the invalid-parameter
  status whenever batch, height or width is zero or negative, and on that failure the
  Layer and the store are as before: no Weight is allocated.
\<close>

theorem initialize_rejects_non_positive:
  assumes "sint b \<le> 0 \<or> sint h \<le> 0 \<or> sint w \<le> 0"
  shows "initialize variant b h w is_last iz wini l st = (ML_ERROR_INVALID_PARAMETER, l, st)"
  using assms by (simp add: initialize_def)

theorem initialize_rejects_non_positive_witness:
  "initialize (\<lambda>d wini iz st. ([example_weight\<lparr>dim := d\<rparr>], st)) 4 1 0 True False
       WEIGHT_XAVIER_NORMAL example_layer (store_of Unallocated Unallocated)
     = (ML_ERROR_INVALID_PARAMETER, example_layer, store_of Unallocated Unallocated)
   \<and> initialize (\<lambda>d wini iz st. ([example_weight\<lparr>dim := d\<rparr>], st)) 4 1 (- 1) True False
       WEIGHT_XAVIER_NORMAL example_layer (store_of Unallocated Unallocated)
     = (ML_ERROR_INVALID_PARAMETER, example_layer, store_of Unallocated Unallocated)
   \<and> weights example_layer = []"
proof -
  have a: "sint (4 :: 32 word) \<le> 0 \<or> sint (1 :: 32 word) \<le> 0 \<or> sint (0 :: 32 word) \<le> 0"
    by simp
  have b: "sint (4 :: 32 word) \<le> 0 \<or> sint (1 :: 32 word) \<le> 0 \<or> sint (- 1 :: 32 word) \<le> 0"
    by simp
  show ?thesis
    using initialize_rejects_non_positive [OF a] initialize_rejects_non_positive [OF b]
    by (simp add: example_layer_def)
qed



end
